theory Spec2Isabelle
  imports Main "HOL-Library.Multiset"
begin

section \<open>Data model\<close>

text \<open>
  The development embeds \<open>TimescaleDB_EXT\<close> of \<open>pycharts_timescaledb/api_extention.py\<close>.
  The statement builder (\<open>sql_cmds\<close>), the connection (\<open>api\<close>) and the configuration
  class (\<open>orm\<close>) are collaborators of that file: a statement is recorded as the
  operation, the target and the arguments handed to the builder, and what the database
  answers to a read is an input of the model.
\<close>

text \<open>A pandas \<open>Timedelta\<close> is a whole number of time units; \<open>Timedelta(0)\<close> is \<open>0\<close>.\<close>

type_synonym Timedelta = int

datatype Timestamp = Timestamp string

datatype Schema = TICK_DATA | MINUTE_DATA | AGGREGATE_DATA | SECURITY

text \<open>
  Modelled from the spec: \<open>AssetTable\<close> (declared in \<open>sql_cmds\<close>) is a table
  specification with an aggregation period, a derived table name and a \<open>raw\<close> flag;
  two specifications are the same table when name, period and flag agree.
\<close>

record AssetTable =
  table_name :: string
  period :: Timedelta
  raw :: bool

text \<open>
  Modelled from the spec: \<open>TimeseriesConfig\<close> (declared in \<open>orm\<close>) holds the asset
  classes, per asset class the list of table specifications (raw and aggregate) and the
  three origin timestamps. The per-asset members are dictionaries, so a lookup of an
  asset class that was never configured raises \<open>KeyError\<close>. The source table of an
  aggregate (\<open>get_aggregation_source\<close>) is a member of the configuration.
\<close>

record TimeseriesConfig =
  asset_classes :: "string list"
  rth_origins :: "string \<rightharpoonup> Timestamp"
  eth_origins :: "string \<rightharpoonup> Timestamp"
  htf_origins :: "string \<rightharpoonup> Timestamp"
  tables :: "string \<rightharpoonup> AssetTable list"
  get_aggregation_source :: "AssetTable \<Rightarrow> AssetTable"

section \<open>Statements and the cursor\<close>

datatype Op = SELECT | CREATE | INSERT | UPDATE | UPSERT | DELETE | DROP | COPY

datatype Target =
    Generic_SCHEMA | Generic_SCHEMA_TABLES | Generic_TABLE | Generic_VIEW
  | SeriesTbls_ORIGIN | SeriesTbls_TICK | SeriesTbls_RAW_AGGREGATE
  | SeriesTbls_CONTINOUS_TICK_AGG | SeriesTbls_CONTINUOUS_AGG
  | AssetTbls_SYMBOLS | AssetTbls_SYMBOLS_BUFFER

datatype arg =
    ASchema Schema
  | AStr string
  | AInt int
  | ATable AssetTable
  | ATime Timestamp
  | ANames "string list"
  | ARows "string list list"

text \<open>\<open>Stmt op target args\<close> stands for \<open>self[op, target](args)\<close> passed to \<open>cursor.execute\<close>.\<close>

datatype stmt = Stmt Op Target "arg list"

text \<open>
  The exceptions that reach the callers of the file; a \<open>KeyError\<close> carries the key or
  the message, a \<open>ValueError\<close> the message.
\<close>

datatype exn = KeyError arg | ValueError string | EOFError | AttributeError

section \<open>The Python runtime\<close>

text \<open>The label of a column of a pandas frame: a string, an integer, or \<open>NaN\<close>.\<close>

datatype label = LStr string | LInt int | LNaN

text \<open>
  What the interpreter and pandas decide and the file does not: \<open>str.lower\<close>, which
  knows every alphabet, the serialisation \<open>to_json\<close> of a row, and the order in which
  a \<open>set\<close> is iterated. That order depends on the hashes of the elements and on the
  history of the set: \<open>rank xs x\<close> is the place of \<open>x\<close> in the iteration of the set
  whose elements are \<open>xs\<close>, one function for each type of element.
\<close>

record runtime =
  lower :: "string \<Rightarrow> string"
  to_json :: "(label \<times> string) list \<Rightarrow> string"
  str_rank :: "string list \<Rightarrow> string \<Rightarrow> nat"
  label_rank :: "label list \<Rightarrow> label \<Rightarrow> nat"
  table_rank :: "AssetTable list \<Rightarrow> AssetTable \<Rightarrow> nat"

text \<open>The elements of a set, given without repetition, in the order of its iteration.\<close>

definition iterate :: "('a list \<Rightarrow> 'a \<Rightarrow> nat) \<Rightarrow> 'a list \<Rightarrow> 'a list" where
  "iterate rank xs = sort_key (rank xs) xs"

text \<open>\<open>str\<close> of an integer, in decimal.\<close>

function str_nat :: "nat \<Rightarrow> string" where
  "str_nat n =
     (if n < 10 then [char_of (48 + n)]
      else str_nat (n div 10) @ [char_of (48 + n mod 10)])"
  by pat_completeness auto
termination
  by (relation "measure (\<lambda>n. n)") auto

declare str_nat.simps [simp del]

definition str_int :: "int \<Rightarrow> string" where
  "str_int i = (if i < 0 then CHR ''-'' # str_nat (nat (- i)) else str_nat (nat i))"

section \<open>Configuration lookups\<close>

definition all_tables :: "TimeseriesConfig \<Rightarrow> string \<Rightarrow> bool \<Rightarrow> exn + AssetTable list" where
  "all_tables config asset include_raw =
     (case tables config asset of
        None \<Rightarrow> Inl (KeyError (AStr asset))
      | Some ts \<Rightarrow> Inr (if include_raw then ts else filter (\<lambda>tbl. \<not> raw tbl) ts))"

definition raw_tables :: "TimeseriesConfig \<Rightarrow> string \<Rightarrow> exn + AssetTable list" where
  "raw_tables config asset =
     (case tables config asset of
        None \<Rightarrow> Inl (KeyError (AStr asset))
      | Some ts \<Rightarrow> Inr (filter raw ts))"

section \<open>The state of a run\<close>

text \<open>
  The state the reconciliation threads through: the statements executed so far, the
  number of commits, and the lines the operator will still type at the console.
\<close>

record world =
  executed :: "stmt list"
  commits :: nat
  answers :: "string list"

definition execute :: "stmt \<Rightarrow> world \<Rightarrow> world" where
  "execute s w = w\<lparr>executed := executed w @ [s]\<rparr>"

definition execute_all :: "stmt list \<Rightarrow> world \<Rightarrow> world" where
  "execute_all ss w = w\<lparr>executed := executed w @ ss\<rparr>"

definition commit :: "world \<Rightarrow> world" where
  "commit w = w\<lparr>commits := Suc (commits w)\<rparr>"

text \<open>\<open>input(prompt)\<close>: the next console line, \<open>EOFError\<close> when there is none.\<close>

definition py_input :: "world \<Rightarrow> (exn + string) \<times> world" where
  "py_input w =
     (case answers w of
        [] \<Rightarrow> (Inl EOFError, w)
      | a # rest \<Rightarrow> (Inr a, w\<lparr>answers := rest\<rparr>))"

text \<open>The test \<open>_del == "y" or _del == "Y"\<close>.\<close>

definition affirmed :: "string \<Rightarrow> bool" where
  "affirmed s = (s = ''y'' \<or> s = ''Y'')"

text \<open>
  A procedure returns \<open>None\<close> and the new state, or the exception it raised and the state
  reached at the raise. A loop over a collection stops at the first raise.
\<close>

type_synonym proc = "world \<Rightarrow> exn option \<times> world"

fun for_each :: "('a \<Rightarrow> proc) \<Rightarrow> 'a list \<Rightarrow> proc" where
  "for_each body [] w = (None, w)"
| "for_each body (x # xs) w =
     (case body x w of
        (None, w') \<Rightarrow> for_each body xs w'
      | (Some e, w') \<Rightarrow> (Some e, w'))"

section \<open>Config differencer\<close>

text \<open>
  \<open>set(a).difference(b)\<close> and \<open>set(a).intersection(b)\<close>: the elements of the
  resulting set, each once. Where the code iterates such a set, the model iterates the
  list with \<open>iterate\<close>, in the order the runtime gives.
\<close>

definition difference :: "'a list \<Rightarrow> 'a list \<Rightarrow> 'a list" where
  "difference a b = filter (\<lambda>x. x \<notin> set b) (remdups a)"

definition intersection :: "'a list \<Rightarrow> 'a list \<Rightarrow> 'a list" where
  "intersection a b = filter (\<lambda>x. x \<in> set b) (remdups a)"

text \<open>The three asset-class sets of lines 273, 324 and 424.\<close>

definition asset_additions :: "TimeseriesConfig \<Rightarrow> TimeseriesConfig \<Rightarrow> string list" where
  "asset_additions config stored_config =
     difference (asset_classes config) (asset_classes stored_config)"

definition asset_updates :: "TimeseriesConfig \<Rightarrow> TimeseriesConfig \<Rightarrow> string list" where
  "asset_updates config stored_config =
     intersection (asset_classes config) (asset_classes stored_config)"

definition asset_removals :: "TimeseriesConfig \<Rightarrow> TimeseriesConfig \<Rightarrow> string list" where
  "asset_removals config stored_config =
     difference (asset_classes stored_config) (asset_classes config)"

section \<open>Additive builder\<close>

text \<open>
  \<open>list.sort(key=f)\<close> is stable and ascending, as \<open>sort_key f\<close> is. With
  \<open>reverse=True\<close> the list is reversed, sorted and reversed again, so that the result
  is descending and equal keys keep their original order.
\<close>

definition sort_reverse :: "('a \<Rightarrow> int) \<Rightarrow> 'a list \<Rightarrow> 'a list" where
  "sort_reverse f xs = rev (sort_key f (rev xs))"

text \<open>The dictionary \<open>origin_args\<close>; its three lookups are evaluated in this order.\<close>

definition origin_args :: "TimeseriesConfig \<Rightarrow> string \<Rightarrow> exn + arg list" where
  "origin_args config asset =
     (case rth_origins config asset of
        None \<Rightarrow> Inl (KeyError (AStr asset))
      | Some rth \<Rightarrow>
     (case eth_origins config asset of
        None \<Rightarrow> Inl (KeyError (AStr asset))
      | Some eth \<Rightarrow>
     (case htf_origins config asset of
        None \<Rightarrow> Inl (KeyError (AStr asset))
      | Some htf \<Rightarrow> Inr [ATime rth, ATime eth, ATime htf])))"

definition create_raw :: "Schema \<Rightarrow> AssetTable \<Rightarrow> stmt" where
  "create_raw schema tbl =
     Stmt CREATE (if period tbl = 0 then SeriesTbls_TICK else SeriesTbls_RAW_AGGREGATE)
       [ASchema schema, ATable tbl]"

definition create_aggregate :: "Schema \<Rightarrow> TimeseriesConfig \<Rightarrow> AssetTable \<Rightarrow> stmt" where
  "create_aggregate schema config tbl =
     (let ref_table = get_aggregation_source config tbl
      in Stmt CREATE
           (if period ref_table = 0 then SeriesTbls_CONTINOUS_TICK_AGG
            else SeriesTbls_CONTINUOUS_AGG)
           [ASchema schema, ATable tbl, ATable ref_table])"

text \<open>The body of the loop of \<open>_add_timeseries_asset_classes\<close>, for one asset class.\<close>

definition add_asset :: "Schema \<Rightarrow> TimeseriesConfig \<Rightarrow> string \<Rightarrow> proc" where
  "add_asset schema config asset w =
     (case origin_args config asset of
        Inl e \<Rightarrow> (Some e, w)
      | Inr oa \<Rightarrow>
     (let w1 = execute (Stmt INSERT SeriesTbls_ORIGIN (ASchema schema # AStr asset # oa)) w
      in case raw_tables config asset of
           Inl e \<Rightarrow> (Some e, w1)
         | Inr raws \<Rightarrow>
     (let w2 = execute_all (map (create_raw schema) raws) w1
      in case all_tables config asset False of
           Inl e \<Rightarrow> (Some e, w2)
         | Inr tbls \<Rightarrow>
             (None,
              execute_all (map (create_aggregate schema config) (sort_key period tbls)) w2))))"

definition add_timeseries_asset_classes ::
  "runtime \<Rightarrow> Schema \<Rightarrow> TimeseriesConfig \<Rightarrow> TimeseriesConfig \<Rightarrow> proc" where
  "add_timeseries_asset_classes py schema config stored_config w =
     (let additions = asset_additions config stored_config
      in if length additions = 0 then (None, w)
         else for_each (add_asset schema config) (iterate (str_rank py) additions) w)"

section \<open>Update reconciler\<close>

definition drop_view :: "Schema \<Rightarrow> AssetTable \<Rightarrow> stmt" where
  "drop_view schema tbl = Stmt DROP Generic_VIEW [ASchema schema, AStr (table_name tbl)]"

definition drop_table :: "Schema \<Rightarrow> AssetTable \<Rightarrow> stmt" where
  "drop_table schema tbl = Stmt DROP Generic_TABLE [ASchema schema, AStr (table_name tbl)]"

text \<open>The body of the loop over the raw tables to remove: one prompt for each.\<close>

definition drop_raw_table :: "Schema \<Rightarrow> AssetTable \<Rightarrow> proc" where
  "drop_raw_table schema tbl w =
     (case py_input w of
        (Inl e, w1) \<Rightarrow> (Some e, w1)
      | (Inr del, w1) \<Rightarrow>
          if \<not> affirmed del then (None, w1)
          else (None, execute (drop_table schema tbl) w1))"

text \<open>The body of the loop of \<open>_update_timeseries_asset_classes\<close>, for one asset class.\<close>

definition update_asset ::
  "runtime \<Rightarrow> Schema \<Rightarrow> TimeseriesConfig \<Rightarrow> TimeseriesConfig \<Rightarrow> string \<Rightarrow> proc" where
  "update_asset py schema config stored_config asset w =
     (case all_tables stored_config asset True of
        Inl e \<Rightarrow> (Some e, w)
      | Inr stored_tbls \<Rightarrow>
     (case all_tables config asset True of
        Inl e \<Rightarrow> (Some e, w)
      | Inr config_tbls \<Rightarrow>
     (let removals = difference stored_tbls config_tbls;
          additions = difference config_tbls stored_tbls
      in if length removals = 0 \<and> length additions = 0 then (None, w)
         else
     (case py_input w of
        (Inl e, w1) \<Rightarrow> (Some e, w1)
      | (Inr del, w1) \<Rightarrow>
          if \<not> affirmed del then (None, w1)
          else
     (case origin_args config asset of
        Inl e \<Rightarrow> (Some e, w1)
      | Inr oa \<Rightarrow>
     (let w2 = execute (Stmt UPDATE SeriesTbls_ORIGIN (ASchema schema # AStr asset # oa)) w1
      in case all_tables stored_config asset False of
           Inl e \<Rightarrow> (Some e, w2)
         | Inr all_aggregates \<Rightarrow>
     (let w3 = execute_all (map (drop_view schema) (sort_reverse period all_aggregates)) w2
      in case for_each (drop_raw_table schema)
                (filter raw (iterate (table_rank py) removals)) w3 of
           (Some e, w4) \<Rightarrow> (Some e, w4)
         | (None, w4) \<Rightarrow>
     (let w5 = execute_all
                (map (create_raw schema) (filter raw (iterate (table_rank py) additions))) w4
      in case all_tables config asset False of
           Inl e \<Rightarrow> (Some e, w5)
         | Inr tbls \<Rightarrow>
             (None,
              execute_all (map (create_aggregate schema config) (sort_key period tbls))
                w5)))))))))"

definition update_timeseries_asset_classes ::
  "runtime \<Rightarrow> Schema \<Rightarrow> TimeseriesConfig \<Rightarrow> TimeseriesConfig \<Rightarrow> proc" where
  "update_timeseries_asset_classes py schema config stored_config w =
     (let updates = asset_updates config stored_config
      in if length updates = 0 then (None, w)
         else for_each (update_asset py schema config stored_config)
                (iterate (str_rank py) updates) w)"

section \<open>Removal sequencer\<close>

definition drop_any :: "Schema \<Rightarrow> AssetTable \<Rightarrow> stmt" where
  "drop_any schema tbl =
     Stmt DROP (if raw tbl then Generic_TABLE else Generic_VIEW)
       [ASchema schema, AStr (table_name tbl)]"

text \<open>The body of the loop of \<open>_del_timeseries_asset_classes\<close>, for one asset class.\<close>

definition del_asset :: "Schema \<Rightarrow> TimeseriesConfig \<Rightarrow> string \<Rightarrow> proc" where
  "del_asset schema stored_config asset w =
     (case py_input w of
        (Inl e, w1) \<Rightarrow> (Some e, w1)
      | (Inr del, w1) \<Rightarrow>
          if \<not> affirmed del then (None, w1)
          else
     (case py_input w1 of
        (Inl e, w2) \<Rightarrow> (Some e, w2)
      | (Inr del2, w2) \<Rightarrow>
          if \<not> affirmed del2 then (None, w2)
          else
     (let w3 = execute (Stmt DELETE SeriesTbls_ORIGIN [ASchema schema, AStr asset]) w2
      in case all_tables stored_config asset True of
           Inl e \<Rightarrow> (Some e, w3)
         | Inr tbls \<Rightarrow>
             (None, execute_all (map (drop_any schema) (sort_reverse period tbls)) w3))))"

definition del_timeseries_asset_classes ::
  "runtime \<Rightarrow> Schema \<Rightarrow> TimeseriesConfig \<Rightarrow> TimeseriesConfig \<Rightarrow> proc" where
  "del_timeseries_asset_classes py schema config stored_config w =
     (let removals = asset_removals config stored_config
      in if length removals = 0 then (None, w)
         else for_each (del_asset schema stored_config) (iterate (str_rank py) removals) w)"

section \<open>The reconciliation run\<close>

text \<open>
  The attributes of the engine instance (\<open>TimeScaleDB\<close>, declared in \<open>api\<close>) that the
  file reads: \<open>table_config\<close>, the stored configuration of each schema, which is a
  dictionary, \<open>cmds.all_schemas\<close>, the schema names the statement builder knows, and
  \<open>SeriesTbls._ORIGIN\<close>, the name of the origin table. How \<open>api\<close> fills
  \<open>table_config\<close> is not part of the file.
\<close>

record engine =
  table_config :: "Schema \<rightharpoonup> TimeseriesConfig"
  all_schemas :: "string list"
  ORIGIN :: string

text \<open>What the database answers to the two catalogue reads of a run.\<close>

record catalogue =
  schemas :: "string list"
  schema_tables :: "Schema \<Rightarrow> string list"

definition and_then :: "exn option \<times> world \<Rightarrow> proc \<Rightarrow> exn option \<times> world" where
  "and_then r p = (case r of (None, w) \<Rightarrow> p w | (Some e, w) \<Rightarrow> (Some e, w))"

text \<open>
  \<open>_configure_timeseries_schema\<close>. The stored configuration of the run is the entry
  \<open>self.table_config[schema]\<close> of line 252.
\<close>

definition configure_schema ::
  "runtime \<Rightarrow> engine \<Rightarrow> catalogue \<Rightarrow> Schema \<Rightarrow> TimeseriesConfig \<Rightarrow> proc" where
  "configure_schema py self db schema config w =
     (let w1 = execute (Stmt SELECT Generic_SCHEMA_TABLES [ASchema schema]) w;
          w2 = (if ORIGIN self \<notin> set (schema_tables db schema)
                then execute (Stmt CREATE SeriesTbls_ORIGIN [ASchema schema]) w1
                else w1)
      in case table_config self schema of
           None \<Rightarrow> (Some (KeyError (ASchema schema)), w2)
         | Some stored_config \<Rightarrow>
             and_then
               (and_then
                  (and_then (add_timeseries_asset_classes py schema config stored_config w2)
                     (\<lambda>w3. update_timeseries_asset_classes py schema config stored_config
                              (commit w3)))
                  (\<lambda>w4. del_timeseries_asset_classes py schema config stored_config
                           (commit w4)))
               (\<lambda>w5. (None, commit w5)))"

definition configure_optional ::
  "runtime \<Rightarrow> engine \<Rightarrow> catalogue \<Rightarrow> Schema \<Rightarrow> TimeseriesConfig option \<Rightarrow> proc" where
  "configure_optional py self db schema config w =
     (case config of
        None \<Rightarrow> (None, w)
      | Some c \<Rightarrow> configure_schema py self db schema c w)"

definition configure_timeseries_schema ::
  "runtime \<Rightarrow> engine \<Rightarrow> catalogue \<Rightarrow> TimeseriesConfig option \<Rightarrow> TimeseriesConfig option
     \<Rightarrow> TimeseriesConfig option \<Rightarrow> proc" where
  "configure_timeseries_schema py self db tick_tables minute_tables aggregate_tables w =
     (let w1 = execute (Stmt SELECT Generic_SCHEMA []) w;
          w2 = execute_all
                 (map (\<lambda>schema. Stmt CREATE Generic_SCHEMA [AStr schema])
                    (iterate (str_rank py) (difference (all_schemas self) (schemas db))))
                 w1
      in and_then
           (and_then (configure_optional py self db TICK_DATA tick_tables (commit w2))
              (configure_optional py self db MINUTE_DATA minute_tables))
           (configure_optional py self db AGGREGATE_DATA aggregate_tables))"

section \<open>Metadata gap resolver\<close>

text \<open>
  Modelled from the spec: \<open>MetadataInfo\<close> (declared in \<open>sql_cmds\<close>) is the table
  identity, the schema, the observed start and end timestamps and the table
  specification, in the order in which \<open>_missing_metadata_tables\<close> passes them.
\<close>

record MetadataInfo =
  md_table_name :: string
  schema_name :: Schema
  start_date :: Timestamp
  end_date :: Timestamp
  table :: AssetTable

text \<open>A row of the symbols table, with the four columns \<open>_rtn_args\<close> asks for.\<close>

record symbol_row =
  asset_class :: string
  store_tick :: bool
  store_minute :: bool
  store_aggregate :: bool

text \<open>
  What the database answers at ingestion time: the rows of the symbols table with a
  given \<open>pkey\<close>, and the metadata \<open>symbol_series_metadata\<close> (declared in \<open>api\<close>)
  returns for the raw tables of a schema that hold rows of the symbol.
\<close>

record ingestion =
  select_symbol :: "int \<Rightarrow> symbol_row list"
  symbol_series_metadata :: "int \<Rightarrow> Schema \<Rightarrow> MetadataInfo list"

definition sentinel :: Timestamp where
  "sentinel = Timestamp ''1800-01-01''"

definition missing_metadata_tables ::
  "runtime \<Rightarrow> engine \<Rightarrow> ingestion \<Rightarrow> int \<Rightarrow> string \<Rightarrow> Schema
     \<Rightarrow> exn + MetadataInfo list" where
  "missing_metadata_tables py self db pkey asset schema =
     (let stored_metadata = symbol_series_metadata db pkey schema
      in case table_config self schema of
           None \<Rightarrow> Inl (KeyError (ASchema schema))
         | Some config \<Rightarrow>
     (case raw_tables config asset of
        Inl e \<Rightarrow> Inl e
      | Inr req_tables \<Rightarrow>
          Inr (map (\<lambda>tbl. \<lparr>md_table_name = table_name tbl, schema_name = schema,
                            start_date = sentinel, end_date = sentinel, table = tbl\<rparr>)
                 (iterate (table_rank py)
                    (difference req_tables (map table stored_metadata))))))"

text \<open>
  The \<open>except KeyError\<close> clause of lines 220 to 223: every \<open>KeyError\<close> of the block is
  raised anew with the message of the clause.
\<close>

definition reraise :: "exn + 'a \<Rightarrow> exn + 'a" where
  "reraise r =
     (case r of
        Inl (KeyError k) \<Rightarrow>
          Inl (KeyError (AStr
            ''Ensure configure_timeseries_schema has been run prior to inserting symbol data.''))
      | Inl e \<Rightarrow> Inl e
      | Inr v \<Rightarrow> Inr v)"

definition when_stored ::
  "bool \<Rightarrow> (exn + MetadataInfo list) \<Rightarrow> MetadataInfo list \<Rightarrow> exn + MetadataInfo list" where
  "when_stored flag missing metadata =
     (if flag then (case missing of Inl e \<Rightarrow> Inl e | Inr ms \<Rightarrow> Inr (metadata @ ms))
      else Inr metadata)"

text \<open>
  \<open>get_symbol_series_updates\<close>. Its one statement is the read of the symbols table.
  The message of the \<open>ValueError\<close> is the formatted string of line 199, in which
  \<open>{pkey = }\<close> prints the name, the equals sign and the number.
\<close>

definition get_symbol_series_updates ::
  "runtime \<Rightarrow> engine \<Rightarrow> ingestion \<Rightarrow> int \<Rightarrow> exn + MetadataInfo list" where
  "get_symbol_series_updates py self db pkey =
     (case select_symbol db pkey of
        [] \<Rightarrow>
          Inl (ValueError (''Cannot determine Symbol updates needed. pkey = '' @ str_int pkey
                 @ '' is unknown.''))
      | rsp # _ \<Rightarrow>
          reraise
            (case when_stored (store_tick rsp)
                    (missing_metadata_tables py self db pkey (asset_class rsp) TICK_DATA) [] of
               Inl e \<Rightarrow> Inl e
             | Inr m1 \<Rightarrow>
            (case when_stored (store_minute rsp)
                    (missing_metadata_tables py self db pkey (asset_class rsp) MINUTE_DATA) m1 of
               Inl e \<Rightarrow> Inl e
             | Inr m2 \<Rightarrow>
                 when_stored (store_aggregate rsp)
                   (missing_metadata_tables py self db pkey (asset_class rsp) AGGREGATE_DATA) m2)))"

text \<open>
  Modelled from the spec: an asset class is configured in a schema when the engine has a
  configuration for the schema and the dictionaries of that configuration have an entry
  for the asset class, so that neither lookup of \<open>_missing_metadata_tables\<close> raises
  \<open>KeyError\<close>; an entry with an empty list of tables counts as configured.
\<close>

definition configured :: "engine \<Rightarrow> Schema \<Rightarrow> string \<Rightarrow> bool" where
  "configured self schema asset =
     (case table_config self schema of
        None \<Rightarrow> False
      | Some config \<Rightarrow> tables config asset \<noteq> None)"

definition enabled :: "symbol_row \<Rightarrow> Schema \<Rightarrow> bool" where
  "enabled rsp schema =
     (case schema of
        TICK_DATA \<Rightarrow> store_tick rsp
      | MINUTE_DATA \<Rightarrow> store_minute rsp
      | AGGREGATE_DATA \<Rightarrow> store_aggregate rsp
      | SECURITY \<Rightarrow> False)"

text \<open>
  The raw tables a schema is configured to hold for an asset class, and the tables for
  which the database holds metadata of a symbol.
\<close>

definition required_tables :: "engine \<Rightarrow> Schema \<Rightarrow> string \<Rightarrow> AssetTable list" where
  "required_tables self schema asset =
     (case table_config self schema of
        None \<Rightarrow> []
      | Some config \<Rightarrow> (case tables config asset of None \<Rightarrow> [] | Some ts \<Rightarrow> filter raw ts))"

definition stored_tables :: "ingestion \<Rightarrow> int \<Rightarrow> Schema \<Rightarrow> AssetTable list" where
  "stored_tables db pkey schema = map table (symbol_series_metadata db pkey schema)"

definition of_schema :: "Schema \<Rightarrow> MetadataInfo list \<Rightarrow> MetadataInfo list" where
  "of_schema schema ms = filter (\<lambda>m. schema_name m = schema) ms"

section \<open>Symbol merge pipeline\<close>

text \<open>
  A pandas \<open>DataFrame\<close> is modelled by the index of its column labels and by its rows,
  each row holding one cell for each label; cells are strings. The index of a frame
  built without column names is a \<open>RangeIndex\<close>, whose labels are the integers from 0.
  Python objects live in a store: a \<open>DataFrame\<close> value is the address of its frame, so
  that a change made through one reference is seen through every other, and \<open>copy\<close>
  allocates a new frame.
\<close>

datatype index = RangeIndex nat | Index "label list"

definition labels :: "index \<Rightarrow> label list" where
  "labels idx =
     (case idx of
        RangeIndex n \<Rightarrow> map (\<lambda>i. LInt (int i)) [0..<n]
      | Index ls \<Rightarrow> ls)"

record DataFrame =
  columns :: index
  rows :: "string list list"

record store =
  frames :: "nat \<Rightarrow> DataFrame"
  top :: nat

datatype pyobj = PyStr string | PyDataFrame nat | PyNone | PyInt int

definition alloc :: "DataFrame \<Rightarrow> store \<Rightarrow> nat \<times> store" where
  "alloc df h = (top h, h\<lparr>frames := (frames h)(top h := df), top := Suc (top h)\<rparr>)"

definition is_str :: "label \<Rightarrow> bool" where
  "is_str l = (case l of LStr s \<Rightarrow> True | _ \<Rightarrow> False)"

text \<open>
  \<open>columns.str.lower()\<close>. The \<open>str\<close> accessor of pandas refuses an index that holds no
  string, such as a \<open>RangeIndex\<close> or an index of integers, with \<open>AttributeError\<close>; an
  empty index of objects it accepts. Otherwise \<open>lower\<close> maps every string label and
  gives \<open>NaN\<close> for every other label.
\<close>

definition columns_str_lower :: "runtime \<Rightarrow> index \<Rightarrow> exn + index" where
  "columns_str_lower py idx =
     (case idx of
        RangeIndex n \<Rightarrow> Inl AttributeError
      | Index ls \<Rightarrow>
          if ls \<noteq> [] \<and> \<not> list_ex is_str ls then Inl AttributeError
          else Inr (Index (map (\<lambda>l. case l of LStr s \<Rightarrow> LStr (lower py s) | _ \<Rightarrow> LNaN) ls)))"

definition req_cols :: "string list" where
  "req_cols = [''symbol'', ''name'', ''exchange'', ''asset_class'']"

text \<open>\<open>df[[names]]\<close>: a new frame with the columns of the given labels, in that order.\<close>

definition select_columns :: "label list \<Rightarrow> DataFrame \<Rightarrow> DataFrame" where
  "select_columns names df =
     \<lparr>columns = Index (concat (map (\<lambda>n. filter (\<lambda>c. c = n) (labels (columns df))) names)),
      rows = map (\<lambda>row. concat (map (\<lambda>n. map snd (filter (\<lambda>cv. fst cv = n)
                                                  (zip (labels (columns df)) row))) names))
               (rows df)\<rparr>"

text \<open>
  The \<open>attrs\<close> column: for each row the extra columns, taken in the order in which the
  set of their labels is iterated, handed to \<open>to_json\<close>.
\<close>

definition attrs_column :: "runtime \<Rightarrow> DataFrame \<Rightarrow> string list" where
  "attrs_column py df =
     (let extra = select_columns
                    (iterate (label_rank py)
                       (difference (labels (columns df)) (map LStr req_cols))) df
      in map (\<lambda>row. to_json py (zip (labels (columns extra)) row)) (rows extra))"

definition set_column :: "string \<Rightarrow> string list \<Rightarrow> DataFrame \<Rightarrow> DataFrame" where
  "set_column name cells df =
     \<lparr>columns = Index (labels (columns df) @ [LStr name]),
      rows = map (\<lambda>rc. fst rc @ [snd rc]) (zip (rows df) cells)\<rparr>"

text \<open>\<open>str(c)\<close> for a column label \<open>c\<close>.\<close>

definition label_str :: "label \<Rightarrow> string" where
  "label_str l = (case l of LStr s \<Rightarrow> s | LInt i \<Rightarrow> str_int i | LNaN \<Rightarrow> ''nan'')"

text \<open>
  The rows \<open>cursor.fetchall\<close> returns after the merge: the primary key and the
  \<open>xmax\<close> column of every affected row.
\<close>

type_synonym response = "(int \<times> string) list"

text \<open>The classification of lines 156 to 165.\<close>

definition classify :: "Op \<Rightarrow> response \<Rightarrow> int list \<times> int list" where
  "classify op response =
     (if length response = 0 then ([], [])
      else if op = INSERT then (map fst response, [])
      else (map fst (filter (\<lambda>r. snd r = ''0'') response),
            map fst (filter (\<lambda>r. \<not> (snd r = ''0'')) response)))"

text \<open>
  \<open>upsert_securities\<close>. The database is the function \<open>fetchall\<close> from the statements of
  the transaction to the rows the merge returns. The result is the two series or the
  exception raised, the store after the call and the statements executed. The list
  \<open>[*req_cols]\<close> is the set of the required columns in the order of its iteration.
\<close>

definition upsert_securities ::
  "runtime \<Rightarrow> (stmt list \<Rightarrow> response) \<Rightarrow> store \<Rightarrow> pyobj \<Rightarrow> pyobj \<Rightarrow> string
     \<Rightarrow> (exn + int list \<times> int list) \<times> store \<times> stmt list" where
  "upsert_securities py fetchall h symbols source on_conflict =
     (case source of
        PyStr src \<Rightarrow>
          if src = [] then (Inr ([], []), h, [])
          else
     (case symbols of
        PyDataFrame a \<Rightarrow>
     (case columns_str_lower py (columns (frames h a)) of
        Inl e \<Rightarrow> (Inl e, h, [])
      | Inr lowered \<Rightarrow>
     (let h1 = h\<lparr>frames := (frames h)(a := (frames h a)\<lparr>columns := lowered\<rparr>)\<rparr>;
          missing_cols = difference (map LStr req_cols) (labels (columns (frames h1 a)))
      in if length missing_cols \<noteq> 0 then (Inr ([], []), h1, [])
         else
     (let (b, h2) = alloc (select_columns (map LStr (iterate (str_rank py) req_cols))
                             (frames h1 a)) h1;
          h3 = h2\<lparr>frames := (frames h2)
                  (b := set_column ''attrs'' (attrs_column py (frames h2 a)) (frames h2 b))\<rparr>;
          symbols_fmt = frames h3 b;
          op = (if on_conflict = ''update'' then UPSERT else INSERT);
          stmts = [Stmt CREATE AssetTbls_SYMBOLS_BUFFER [],
                   Stmt COPY AssetTbls_SYMBOLS_BUFFER
                     [ANames (map label_str (labels (columns symbols_fmt))),
                      ARows (rows symbols_fmt)],
                   Stmt op AssetTbls_SYMBOLS_BUFFER [AStr src]]
      in (Inr (classify op (fetchall stmts)), h3, stmts))))
      | _ \<Rightarrow> (Inr ([], []), h, []))
      | _ \<Rightarrow> (Inr ([], []), h, []))"

text \<open>
  Modelled from the spec: the merge from the staging table into the symbols table. The
  primary key of a row is (symbol, exchange, source). A staged row whose key is new is
  inserted under a fresh \<open>pkey\<close> and returned with the conflict marker \<open>0\<close>. A staged
  row whose key exists is, under insert-or-update, updated and returned with the
  identifier \<open>xid\<close> of the transaction as its marker, and, under insert-or-ignore,
  skipped and not returned.
\<close>

fun merge_staged ::
  "Op \<Rightarrow> string \<Rightarrow> string \<Rightarrow> ((string \<times> string \<times> string) \<times> int) list \<Rightarrow> int
     \<Rightarrow> (string \<times> string) list \<Rightarrow> response" where
  "merge_staged op xid src symbols_table next_pkey [] = []"
| "merge_staged op xid src symbols_table next_pkey ((symbol, exchange) # staged) =
     (case map_of symbols_table (symbol, exchange, src) of
        None \<Rightarrow>
          (next_pkey, ''0'')
            # merge_staged op xid src (((symbol, exchange, src), next_pkey) # symbols_table)
                (next_pkey + 1) staged
      | Some pkey \<Rightarrow>
          (if op = UPSERT then [(pkey, xid)] else [])
            @ merge_staged op xid src symbols_table next_pkey staged)"

text \<open>The staged keys and the merge, read off the statements of the transaction.\<close>

definition cell :: "string list \<Rightarrow> string list \<Rightarrow> string \<Rightarrow> string" where
  "cell names row name = (case map_of (zip names row) name of None \<Rightarrow> [] | Some v \<Rightarrow> v)"

definition staged_keys :: "string list \<Rightarrow> string list list \<Rightarrow> (string \<times> string) list" where
  "staged_keys names rs = map (\<lambda>row. (cell names row ''symbol'', cell names row ''exchange'')) rs"

definition symbols_database ::
  "string \<Rightarrow> ((string \<times> string \<times> string) \<times> int) list \<Rightarrow> int \<Rightarrow> stmt list \<Rightarrow> response" where
  "symbols_database xid symbols_table next_pkey stmts =
     (case stmts of
        [Stmt CREATE AssetTbls_SYMBOLS_BUFFER [],
         Stmt COPY AssetTbls_SYMBOLS_BUFFER [ANames names, ARows rs],
         Stmt op AssetTbls_SYMBOLS_BUFFER [AStr src]] \<Rightarrow>
          merge_staged op xid src symbols_table next_pkey (staged_keys names rs)
      | _ \<Rightarrow> [])"

section \<open>Reading the statement log\<close>

text \<open>The table a \<open>CREATE\<close> statement of a series table makes, and the name a \<open>DROP\<close> removes.\<close>

definition created_table :: "stmt \<Rightarrow> AssetTable option" where
  "created_table s =
     (case s of Stmt op target args \<Rightarrow>
        (if op = CREATE then
           (case args of
              [ASchema schema, ATable tbl] \<Rightarrow> Some tbl
            | [ASchema schema, ATable tbl, ATable ref_table] \<Rightarrow> Some tbl
            | _ \<Rightarrow> None)
         else None))"

definition dropped_name :: "stmt \<Rightarrow> string option" where
  "dropped_name s =
     (case s of Stmt op target args \<Rightarrow>
        (if op = DROP then
           (case args of [ASchema schema, AStr name] \<Rightarrow> Some name | _ \<Rightarrow> None)
         else None))"

definition created_tables :: "stmt list \<Rightarrow> AssetTable list" where
  "created_tables ss = List.map_filter created_table ss"

definition dropped_names :: "stmt list \<Rightarrow> string list" where
  "dropped_names ss = List.map_filter dropped_name ss"

definition emitted :: "proc \<Rightarrow> world \<Rightarrow> stmt list" where
  "emitted p w = drop (length (executed w)) (executed (snd (p w)))"

text \<open>The tables whose prompt is answered with a yes, when the prompts are answered in order.\<close>

definition confirmed :: "'a list \<Rightarrow> string list \<Rightarrow> 'a list" where
  "confirmed tbls lines = map fst (filter (\<lambda>p. affirmed (snd p)) (zip tbls lines))"

text \<open>
  A stored configuration has converged to a desired one when both have the same asset
  classes and, for each of them, the same set of tables.
\<close>

definition converged :: "TimeseriesConfig \<Rightarrow> TimeseriesConfig \<Rightarrow> bool" where
  "converged config stored_config =
     (set (asset_classes config) = set (asset_classes stored_config)
      \<and> list_all
          (\<lambda>asset. case tables config asset of
                      None \<Rightarrow> False
                    | Some ts \<Rightarrow>
                        (case tables stored_config asset of
                           None \<Rightarrow> False
                         | Some ss \<Rightarrow> set ts = set ss))
          (asset_classes config))"

text \<open>The names of the tables of a configuration, over all its asset classes.\<close>

definition table_names :: "TimeseriesConfig \<Rightarrow> string list" where
  "table_names config =
     concat (map (\<lambda>asset. case tables config asset of
                            None \<Rightarrow> []
                          | Some ts \<Rightarrow> map table_name ts)
               (asset_classes config))"

text \<open>
  A schema is settled for a run when no configuration is given for it, or the schema of
  the database holds the origin table and every table of the given configuration, and
  the stored configuration that the run obtains for the schema has converged to the
  given one.
\<close>

definition settled ::
  "engine \<Rightarrow> catalogue \<Rightarrow> Schema \<Rightarrow> TimeseriesConfig option \<Rightarrow> bool" where
  "settled self db schema config =
     (case config of
        None \<Rightarrow> True
      | Some c \<Rightarrow>
          (case table_config self schema of
             None \<Rightarrow> False
           | Some stored_config \<Rightarrow>
               converged c stored_config
               \<and> ORIGIN self \<in> set (schema_tables db schema)
               \<and> set (table_names c) \<subseteq> set (schema_tables db schema)))"

text \<open>The catalogue reads of a run: one for the schemas, one for each configuration given.\<close>

definition catalogue_reads ::
  "TimeseriesConfig option \<Rightarrow> TimeseriesConfig option \<Rightarrow> TimeseriesConfig option
     \<Rightarrow> stmt list" where
  "catalogue_reads tick_tables minute_tables aggregate_tables =
     Stmt SELECT Generic_SCHEMA []
       # map (\<lambda>schema. Stmt SELECT Generic_SCHEMA_TABLES [ASchema schema])
           (map fst (filter (\<lambda>p. snd p \<noteq> None)
              [(TICK_DATA, tick_tables), (MINUTE_DATA, minute_tables),
               (AGGREGATE_DATA, aggregate_tables)]))"

section \<open>Example configurations\<close>

text \<open>
  An asset class \<open>crypto\<close> with a tick table, raw tables of one minute and one hour, and
  aggregates of one minute, five minutes and one hour; periods are in seconds.
\<close>

definition tick :: AssetTable where
  "tick = \<lparr>table_name = ''crypto_0_raw'', period = 0, raw = True\<rparr>"

definition raw_1m :: AssetTable where
  "raw_1m = \<lparr>table_name = ''crypto_60_raw'', period = 60, raw = True\<rparr>"

definition raw_1h :: AssetTable where
  "raw_1h = \<lparr>table_name = ''crypto_3600_raw'', period = 3600, raw = True\<rparr>"

definition agg_1m :: AssetTable where
  "agg_1m = \<lparr>table_name = ''crypto_60'', period = 60, raw = False\<rparr>"

definition agg_5m :: AssetTable where
  "agg_5m = \<lparr>table_name = ''crypto_300'', period = 300, raw = False\<rparr>"

definition agg_1h :: AssetTable where
  "agg_1h = \<lparr>table_name = ''crypto_3600'', period = 3600, raw = False\<rparr>"

definition origin :: Timestamp where
  "origin = Timestamp ''2000-01-03 00:00:00''"

text \<open>The configuration of \<open>crypto\<close> with the given tables, every aggregate drawn from \<open>src\<close>.\<close>

definition crypto_config :: "AssetTable list \<Rightarrow> AssetTable \<Rightarrow> TimeseriesConfig" where
  "crypto_config tbls src =
     \<lparr>asset_classes = [''crypto''],
      rth_origins = [''crypto'' \<mapsto> origin],
      eth_origins = [''crypto'' \<mapsto> origin],
      htf_origins = [''crypto'' \<mapsto> origin],
      tables = [''crypto'' \<mapsto> tbls],
      get_aggregation_source = (\<lambda>tbl. src)\<rparr>"

definition console :: "string list \<Rightarrow> world" where
  "console lines = \<lparr>executed = [], commits = 0, answers = lines\<rparr>"

definition empty_config :: TimeseriesConfig where
  "empty_config =
     \<lparr>asset_classes = [], rth_origins = Map.empty, eth_origins = Map.empty,
      htf_origins = Map.empty, tables = Map.empty, get_aggregation_source = (\<lambda>tbl. tbl)\<rparr>"

text \<open>An engine whose stored configuration of every schema is \<open>stored\<close>.\<close>

definition engine_with :: "TimeseriesConfig \<Rightarrow> engine" where
  "engine_with stored =
     \<lparr>table_config = (\<lambda>schema. Some stored),
      all_schemas = [''security'', ''tick_data'', ''minute_data'', ''aggregate_data''],
      ORIGIN = ''_origin''\<rparr>"

text \<open>A database with every schema, in which each series schema holds the given tables.\<close>

definition catalogue_with :: "string list \<Rightarrow> catalogue" where
  "catalogue_with names =
     \<lparr>schemas = [''security'', ''tick_data'', ''minute_data'', ''aggregate_data''],
      schema_tables = (\<lambda>schema. names)\<rparr>"

definition raw_5m :: AssetTable where
  "raw_5m = \<lparr>table_name = ''crypto_300_raw'', period = 300, raw = True\<rparr>"

text \<open>
  A database in which the symbol with \<open>pkey\<close> 7 has the given row and the given stored
  metadata, and no other symbol exists.
\<close>

definition ingestion_with :: "symbol_row \<Rightarrow> MetadataInfo list \<Rightarrow> ingestion" where
  "ingestion_with row stored =
     \<lparr>select_symbol = (\<lambda>pkey. if pkey = 7 then [row] else []),
      symbol_series_metadata = (\<lambda>pkey schema. filter (\<lambda>m. schema_name m = schema) stored)\<rparr>"

definition minute_symbol :: symbol_row where
  "minute_symbol =
     \<lparr>asset_class = ''crypto'', store_tick = False, store_minute = True,
      store_aggregate = False\<rparr>"

definition stored_1m :: MetadataInfo where
  "stored_1m =
     \<lparr>md_table_name = ''crypto_60_raw'', schema_name = MINUTE_DATA,
      start_date = Timestamp ''2024-01-02'', end_date = Timestamp ''2024-06-28'',
      table = raw_1m\<rparr>"

text \<open>
  A store that holds one frame, at address 0, and three frames: a listing with all the
  required columns and one extra column, a frame without \<open>exchange\<close> and
  \<open>asset_class\<close>, and the frame \<open>pandas.DataFrame([["BTC", "Bitcoin"]])\<close>, built
  without column names.
\<close>

definition store_with :: "DataFrame \<Rightarrow> store" where
  "store_with df = \<lparr>frames = (\<lambda>a. df), top = 1\<rparr>"

definition listing :: DataFrame where
  "listing =
     \<lparr>columns = Index [LStr ''Symbol'', LStr ''Name'', LStr ''Exchange'', LStr ''Asset_Class'',
                       LStr ''Sector''],
      rows = [[''BTC'', ''Bitcoin'', ''CBSE'', ''crypto'', ''coin''],
              [''ETH'', ''Ether'', ''CBSE'', ''crypto'', ''coin'']]\<rparr>"

definition incomplete :: DataFrame where
  "incomplete =
     \<lparr>columns = Index [LStr ''Symbol'', LStr ''Name''], rows = [[''BTC'', ''Bitcoin'']]\<rparr>"

definition unnamed :: DataFrame where
  "unnamed = \<lparr>columns = RangeIndex 2, rows = [[''BTC'', ''Bitcoin'']]\<rparr>"

text \<open>
  Two runtimes. Both lower the letters \<open>A\<close> to \<open>Z\<close> and keep every other character,
  as \<open>str.lower\<close> does on text of the basic Latin alphabet, and both serialise a row
  as its labels and cells in sequence. The first iterates a set in the order in which
  its elements are given, the second in the opposite order.
\<close>

definition ascii_lower_char :: "char \<Rightarrow> char" where
  "ascii_lower_char c =
     (let n = (of_char c :: nat)
      in if 65 \<le> n \<and> n \<le> 90 then char_of (n + 32) else c)"

definition ascii_lower :: "string \<Rightarrow> string" where
  "ascii_lower s = map ascii_lower_char s"

definition json :: "(label \<times> string) list \<Rightarrow> string" where
  "json kvs = concat (map (\<lambda>kv. label_str (fst kv) @ '':'' @ snd kv @ '';'') kvs)"

definition place :: "'a list \<Rightarrow> 'a \<Rightarrow> nat" where
  "place xs x = length (takeWhile (\<lambda>y. y \<noteq> x) xs)"

definition forwards :: runtime where
  "forwards =
     \<lparr>lower = ascii_lower, to_json = json, str_rank = place, label_rank = place,
      table_rank = place\<rparr>"

definition backwards :: runtime where
  "backwards =
     \<lparr>lower = ascii_lower, to_json = json,
      str_rank = (\<lambda>xs x. length xs - place xs x),
      label_rank = (\<lambda>xs x. length xs - place xs x),
      table_rank = (\<lambda>xs x. length xs - place xs x)\<rparr>"

text \<open>A symbols table that holds \<open>ETH\<close> only.\<close>

definition symbols_with_eth :: "stmt list \<Rightarrow> response" where
  "symbols_with_eth = symbols_database ''731'' [((''ETH'', ''CBSE'', ''alpaca''), 4)] 5"

section \<open>Iteration of sets\<close>

lemma set_iterate [simp]: "set (iterate rank xs) = set xs"
  by (simp add: iterate_def)

lemma distinct_iterate [simp]: "distinct (iterate rank xs) = distinct xs"
  by (simp add: iterate_def)

lemma mset_iterate [simp]: "mset (iterate rank xs) = mset xs"
  by (simp add: iterate_def)

lemma length_iterate [simp]: "length (iterate rank xs) = length xs"
  by (simp add: iterate_def)

lemma iterate_Nil [simp]: "iterate rank [] = []"
  by (simp add: iterate_def)

lemma iterate_single [simp]: "iterate rank [x] = [x]"
  by (simp add: iterate_def)

lemma iterate_eq_Nil [simp]: "iterate rank xs = [] \<longleftrightarrow> xs = []"
  by (metis length_iterate length_0_conv)

text \<open>A list sorted on keys that are all different is the only sorted arrangement.\<close>

lemma filter_key_distinct:
  "distinct (map f xs) \<Longrightarrow> k \<in> set xs \<Longrightarrow> filter (\<lambda>x. f k = f x) xs = [k]"
  by (induction xs) (auto simp: filter_empty_conv image_iff)

lemma sort_key_unique:
  assumes "mset ys = mset xs" "distinct (map f xs)" "sorted (map f ys)"
  shows "sort_key f xs = ys"
proof (rule properties_for_sort_key)
  show "mset ys = mset xs" by (rule assms)
  show "sorted (map f ys)" by (rule assms)
  fix k assume k: "k \<in> set ys"
  have "mset (map f ys) = mset (map f xs)" using assms(1) by simp
  then have d: "distinct (map f ys)"
    using assms(2) mset_eq_imp_distinct_iff by blast
  have "k \<in> set xs" using k assms(1) by (metis mset_eq_setD)
  then show "filter (\<lambda>x. f k = f x) ys = filter (\<lambda>x. f k = f x) xs"
    using filter_key_distinct [OF d k] filter_key_distinct [OF assms(2)] by simp
qed

text \<open>
  Every arrangement of the elements of a set is its iteration for some rank, so that a
  statement about every runtime is a statement about every order of iteration.
\<close>

lemma place_nth: "distinct ys \<Longrightarrow> i < length ys \<Longrightarrow> place ys (ys ! i) = i"
proof (induction ys arbitrary: i)
  case Nil
  then show ?case by simp
next
  case (Cons y ys)
  show ?case
  proof (cases i)
    case 0
    then show ?thesis by (simp add: place_def)
  next
    case (Suc j)
    then have "ys ! j \<in> set ys" using Cons.prems by simp
    then have "y \<noteq> ys ! j" using Cons.prems by auto
    then show ?thesis using Suc Cons by (simp add: place_def)
  qed
qed

lemma map_place: "distinct ys \<Longrightarrow> map (place ys) ys = [0..<length ys]"
  by (rule nth_equalityI) (simp_all add: place_nth)

lemma every_order_is_an_iteration:
  assumes "mset ys = mset xs" and "distinct xs"
  shows "iterate (\<lambda>zs. place ys) xs = ys"
proof -
  have d: "distinct ys" using assms mset_eq_imp_distinct_iff by blast
  have "mset (map (place ys) xs) = mset (map (place ys) ys)" using assms(1) by simp
  then have "distinct (map (place ys) xs)"
    using mset_eq_imp_distinct_iff [of "map (place ys) xs" "map (place ys) ys"]
    by (simp add: map_place [OF d])
  moreover have "sorted (map (place ys) ys)" by (simp add: map_place [OF d])
  ultimately show ?thesis
    unfolding iterate_def using assms(1) by (intro sort_key_unique) simp_all
qed

section \<open>Properties of the differencer\<close>

lemma set_difference [simp]: "set (difference a b) = set a - set b"
  by (auto simp: difference_def)

lemma set_intersection [simp]: "set (intersection a b) = set a \<inter> set b"
  by (auto simp: intersection_def)

lemma distinct_difference [simp]: "distinct (difference a b)"
  by (simp add: difference_def)

lemma distinct_intersection [simp]: "distinct (intersection a b)"
  by (simp add: intersection_def)

text \<open>
  C2. The asset classes to add, to update and to remove are pairwise disjoint, and
  together they are the asset classes of the desired and of the stored configuration.
\<close>

theorem asset_sets_partition:
  "set (asset_additions config stored_config) \<inter> set (asset_updates config stored_config) = {}
   \<and> set (asset_additions config stored_config) \<inter> set (asset_removals config stored_config) = {}
   \<and> set (asset_updates config stored_config) \<inter> set (asset_removals config stored_config) = {}
   \<and> set (asset_additions config stored_config) \<union> set (asset_updates config stored_config)
       \<union> set (asset_removals config stored_config)
     = set (asset_classes config) \<union> set (asset_classes stored_config)"
  by (auto simp: asset_additions_def asset_updates_def asset_removals_def)

section \<open>Creation and teardown order\<close>

lemma created_tables_append:
  "created_tables (xs @ ys) = created_tables xs @ created_tables ys"
  by (induction xs) (simp_all add: created_tables_def split: option.split)

lemma dropped_names_append:
  "dropped_names (xs @ ys) = dropped_names xs @ dropped_names ys"
  by (induction xs) (simp_all add: dropped_names_def split: option.split)

lemma created_tables_create_raw: "created_tables (map (create_raw schema) tbls) = tbls"
  by (induction tbls) (simp_all add: created_tables_def created_table_def create_raw_def)

lemma created_tables_create_aggregate:
  "created_tables (map (create_aggregate schema config) tbls) = tbls"
  by (induction tbls)
     (simp_all add: created_tables_def created_table_def create_aggregate_def Let_def)

lemma created_tables_drop [simp]:
  "created_tables (map (drop_any schema) tbls) = []"
  "created_tables (map (drop_view schema) tbls) = []"
  "created_tables (map (drop_table schema) tbls) = []"
  by (induction tbls)
     (simp_all add: created_tables_def created_table_def drop_any_def drop_view_def
        drop_table_def)

lemma dropped_names_create [simp]:
  "dropped_names (map (create_raw schema) tbls) = []"
  "dropped_names (map (create_aggregate schema config) tbls) = []"
  by (induction tbls)
     (simp_all add: dropped_names_def dropped_name_def create_raw_def create_aggregate_def
        Let_def)

lemma dropped_names_drop [simp]:
  "dropped_names (map (drop_any schema) tbls) = map table_name tbls"
  "dropped_names (map (drop_view schema) tbls) = map table_name tbls"
  "dropped_names (map (drop_table schema) tbls) = map table_name tbls"
  by (induction tbls)
     (simp_all add: dropped_names_def dropped_name_def drop_any_def drop_view_def
        drop_table_def)

lemma log_of_origin [simp]:
  "created_tables [Stmt INSERT SeriesTbls_ORIGIN args] = []"
  "created_tables [Stmt UPDATE SeriesTbls_ORIGIN args] = []"
  "created_tables [Stmt DELETE SeriesTbls_ORIGIN args] = []"
  "dropped_names [Stmt INSERT SeriesTbls_ORIGIN args] = []"
  "dropped_names [Stmt UPDATE SeriesTbls_ORIGIN args] = []"
  "dropped_names [Stmt DELETE SeriesTbls_ORIGIN args] = []"
  by (simp_all add: created_tables_def created_table_def dropped_names_def dropped_name_def)

text \<open>The statements of one asset class, when nothing is raised.\<close>

lemma add_asset_executed:
  assumes "tables config asset = Some ts" and "origin_args config asset = Inr oa"
  shows "add_asset schema config asset \<lparr>executed = ex, commits = n, answers = lines\<rparr> =
    (None, \<lparr>executed = ex
        @ Stmt INSERT SeriesTbls_ORIGIN (ASchema schema # AStr asset # oa)
        # map (create_raw schema) (filter raw ts)
        @ map (create_aggregate schema config)
            (sort_key period (filter (\<lambda>tbl. \<not> raw tbl) ts)),
        commits = n, answers = lines\<rparr>)"
  using assms
  by (simp add: add_asset_def raw_tables_def all_tables_def execute_def execute_all_def)

lemma del_asset_executed:
  assumes "tables stored_config asset = Some ts" and "affirmed a" and "affirmed b"
  shows "del_asset schema stored_config asset
           \<lparr>executed = ex, commits = n, answers = a # b # rest\<rparr> =
    (None, \<lparr>executed = ex
        @ Stmt DELETE SeriesTbls_ORIGIN [ASchema schema, AStr asset]
        # map (drop_any schema) (sort_reverse period ts), commits = n, answers = rest\<rparr>)"
  using assms
  by (simp add: del_asset_def py_input_def all_tables_def execute_def execute_all_def)

lemma for_each_drop_raw_table:
  "length tbls \<le> length lines \<Longrightarrow>
   for_each (drop_raw_table schema) tbls \<lparr>executed = ex, commits = n, answers = lines\<rparr> =
     (None, \<lparr>executed = ex @ map (drop_table schema) (confirmed tbls lines), commits = n,
               answers = drop (length tbls) lines\<rparr>)"
proof (induction tbls arbitrary: ex lines)
  case Nil
  then show ?case by (simp add: confirmed_def)
next
  case (Cons t tbls)
  then obtain a rest where a: "lines = a # rest" by (cases lines) auto
  then have "length tbls \<le> length rest" using Cons.prems by simp
  then show ?case using a Cons.IH [of rest]
    by (simp add: confirmed_def drop_raw_table_def py_input_def execute_def)
qed

lemma length_filter_iterate [simp]:
  "length (filter P (iterate rank xs)) = length (filter P xs)"
proof -
  have "mset (filter P (iterate rank xs)) = mset (filter P xs)" by simp
  then show ?thesis by (metis size_mset)
qed

lemma update_asset_executed:
  assumes "tables stored_config asset = Some ss" and "tables config asset = Some ts"
    and "origin_args config asset = Inr oa"
    and "difference ss ts \<noteq> [] \<or> difference ts ss \<noteq> []"
    and "affirmed a"
    and "length (filter raw (difference ss ts)) \<le> length rest"
  shows "update_asset py schema config stored_config asset
           \<lparr>executed = ex, commits = n, answers = a # rest\<rparr> =
    (None, \<lparr>executed = ex
        @ Stmt UPDATE SeriesTbls_ORIGIN (ASchema schema # AStr asset # oa)
        # map (drop_view schema) (sort_reverse period (filter (\<lambda>tbl. \<not> raw tbl) ss))
        @ map (drop_table schema)
            (confirmed (filter raw (iterate (table_rank py) (difference ss ts))) rest)
        @ map (create_raw schema) (filter raw (iterate (table_rank py) (difference ts ss)))
        @ map (create_aggregate schema config)
            (sort_key period (filter (\<lambda>tbl. \<not> raw tbl) ts)),
      commits = n,
      answers = drop (length (filter raw (difference ss ts))) rest\<rparr>)"
  using assms
  by (auto simp add: update_asset_def all_tables_def py_input_def execute_def execute_all_def
      Let_def for_each_drop_raw_table length_filter_iterate)

lemma reverse_of_creation:
  assumes d: "distinct (map period ts)"
    and r: "sorted (map period (filter raw ts))"
    and c: "\<forall>x \<in> set ts. \<forall>y \<in> set ts. raw x \<and> \<not> raw y \<longrightarrow> period x < period y"
  shows "sort_reverse period ts =
    rev (filter raw ts @ sort_key period (filter (\<lambda>tbl. \<not> raw tbl) ts))"
proof -
  let ?L = "filter raw ts @ sort_key period (filter (\<lambda>tbl. \<not> raw tbl) ts)"
  have m: "mset ?L = mset (rev ts)" by simp
  have s: "sorted (map period ?L)"
    using r c by (auto simp: sorted_append less_imp_le)
  have "distinct (map period (rev ts))" using d by (simp add: rev_map [symmetric])
  then have "sort_key period (rev ts) = ?L" using m s by (simp add: sort_key_unique)
  then show ?thesis by (simp add: sort_reverse_def)
qed

lemma emitted_literal:
  "p \<lparr>executed = ex, commits = n, answers = lines\<rparr> =
     (r, \<lparr>executed = ex @ ss, commits = n', answers = lines'\<rparr>) \<Longrightarrow>
   emitted p \<lparr>executed = ex, commits = n, answers = lines\<rparr> = ss"
  by (simp add: emitted_def)



lemma example_tables [simp]:
  "tables (crypto_config tbls src) ''crypto'' = Some tbls"
  by (simp add: crypto_config_def)

lemma example_origin_args [simp]:
  "origin_args (crypto_config tbls src) ''crypto'' = Inr [ATime origin, ATime origin, ATime origin]"
  by (simp add: crypto_config_def origin_args_def)

lemma affirmed_simps [simp]: "affirmed ''y''" "affirmed ''Y''" "\<not> affirmed ''n''" "\<not> affirmed []"
  by (simp_all add: affirmed_def)



section \<open>Confirmation gating\<close>

lemma update_asset_declined:
  "\<not> (\<exists>a rest. lines = a # rest \<and> affirmed a) \<Longrightarrow>
   executed (snd (update_asset py schema config stored_config asset
      \<lparr>executed = ex, commits = n, answers = lines\<rparr>)) = ex"
  by (cases lines) (auto simp add: update_asset_def py_input_def Let_def split: sum.split)

lemma del_asset_declined:
  "\<not> (\<exists>a b rest. lines = a # b # rest \<and> affirmed a \<and> affirmed b) \<Longrightarrow>
   executed (snd (del_asset schema stored_config asset
      \<lparr>executed = ex, commits = n, answers = lines\<rparr>)) = ex"
  by (cases lines; cases "tl lines") (auto simp add: del_asset_def py_input_def Let_def split: sum.split)

lemma drop_raw_table_declined:
  "\<not> (\<exists>a rest. lines = a # rest \<and> affirmed a) \<Longrightarrow>
   executed (snd (drop_raw_table schema tbl
      \<lparr>executed = ex, commits = n, answers = lines\<rparr>)) = ex"
  by (cases lines) (auto simp add: drop_raw_table_def py_input_def)

text \<open>
  C3, as amended. For one asset class: the update executes no statement unless the
  operator answers its first prompt with \<open>y\<close> or \<open>Y\<close>, and the removal executes no
  statement unless the operator answers both of its prompts so; this covers a declined
  prompt and a console at its end. The prompt for one raw table inside an accepted
  update gates only the drop of that table.
\<close>

theorem declined_confirmation_executes_nothing:
  "(\<not> (\<exists>a rest. answers w = a # rest \<and> affirmed a) \<longrightarrow>
      executed (snd (update_asset py schema config stored_config asset w)) = executed w)
   \<and> (\<not> (\<exists>a b rest. answers w = a # b # rest \<and> affirmed a \<and> affirmed b) \<longrightarrow>
      executed (snd (del_asset schema stored_config asset w)) = executed w)
   \<and> (\<not> (\<exists>a rest. answers w = a # rest \<and> affirmed a) \<longrightarrow>
      executed (snd (drop_raw_table schema tbl w)) = executed w)"
proof (cases w)
  case (fields ex n lines)
  show ?thesis
    unfolding fields
    using update_asset_declined [of lines] del_asset_declined [of lines] drop_raw_table_declined [of lines]
    by simp
qed

text \<open>
  The update declined; the removal declined at the first prompt, and at the second with
  the answer \<open>yes\<close>; the drop of a raw table declined.
\<close>

theorem declined_confirmation_executes_nothing_witness:
  "executed (snd (update_asset forwards MINUTE_DATA (crypto_config [raw_1m, agg_5m] raw_1m)
      (crypto_config [raw_1m, raw_1h, agg_5m] raw_1m) ''crypto'' (console [''n'', ''y'']))) = []
   \<and> executed (snd (del_asset MINUTE_DATA (crypto_config [raw_1m, agg_5m] raw_1m) ''crypto''
      (console [''n'', ''y'']))) = []
   \<and> executed (snd (del_asset MINUTE_DATA (crypto_config [raw_1m, agg_5m] raw_1m) ''crypto''
      (console [''y'', ''yes'']))) = []
   \<and> executed (snd (drop_raw_table MINUTE_DATA raw_1h (console [''n'', ''y'']))) = []"
  using declined_confirmation_executes_nothing [of "console [''n'', ''y'']" forwards MINUTE_DATA
      "crypto_config [raw_1m, agg_5m] raw_1m" "crypto_config [raw_1m, raw_1h, agg_5m] raw_1m"
      "''crypto''" raw_1h]
    declined_confirmation_executes_nothing [of "console [''n'', ''y'']" forwards MINUTE_DATA
      "crypto_config [raw_1m, agg_5m] raw_1m" "crypto_config [raw_1m, agg_5m] raw_1m"
      "''crypto''" raw_1h]
    declined_confirmation_executes_nothing [of "console [''y'', ''yes'']" forwards MINUTE_DATA
      "crypto_config [raw_1m, agg_5m] raw_1m" "crypto_config [raw_1m, agg_5m] raw_1m"
      "''crypto''" raw_1h]
  by (simp add: console_def affirmed_def)

text \<open>
  C3 as stated fails for the prompt of a raw table: the stored raw table of one hour is
  not in the new configuration, the operator accepts the update and declines the drop
  of that table, and the origin update, the drop of the aggregate and its creation are
  executed all the same. One raw table is to be removed and none to be added, so the
  order in which the runtime iterates a set plays no part.
\<close>

theorem declined_table_prompt_counterexample:
  "update_asset forwards MINUTE_DATA (crypto_config [raw_1m, agg_5m] raw_1m)
      (crypto_config [raw_1m, raw_1h, agg_5m] raw_1m) ''crypto'' (console [''y'', ''n''])
   = (None,
      \<lparr>executed =
         [Stmt UPDATE SeriesTbls_ORIGIN
            [ASchema MINUTE_DATA, AStr ''crypto'', ATime origin, ATime origin, ATime origin],
          Stmt DROP Generic_VIEW [ASchema MINUTE_DATA, AStr ''crypto_300''],
          Stmt CREATE SeriesTbls_CONTINUOUS_AGG [ASchema MINUTE_DATA, ATable agg_5m, ATable raw_1m]],
       commits = 0, answers = []\<rparr>)"
  by (simp add: update_asset_def console_def crypto_config_def raw_1m_def raw_1h_def agg_5m_def
      py_input_def affirmed_def execute_def execute_all_def all_tables_def origin_args_def
      sort_reverse_def difference_def drop_view_def drop_raw_table_def drop_table_def
      create_raw_def create_aggregate_def Let_def iterate_def)

section \<open>A second run on a converged store\<close>

lemma difference_empty: "set a \<subseteq> set b \<Longrightarrow> difference a b = []"
  by (auto simp: difference_def filter_empty_conv)

lemma converged_additions: "converged config stored_config \<Longrightarrow> asset_additions config stored_config = []"
  by (simp add: converged_def asset_additions_def difference_empty)

lemma converged_removals: "converged config stored_config \<Longrightarrow> asset_removals config stored_config = []"
  by (simp add: converged_def asset_removals_def difference_empty)

lemma converged_update_asset:
  assumes "converged config stored_config" and "asset \<in> set (asset_classes config)"
  shows "update_asset py schema config stored_config asset w = (None, w)"
proof -
  from assms have c: "case tables config asset of None \<Rightarrow> False
      | Some ts \<Rightarrow> (case tables stored_config asset of None \<Rightarrow> False | Some ss \<Rightarrow> set ts = set ss)"
    by (simp add: converged_def list_all_iff)
  then obtain ts where ts: "tables config asset = Some ts" by (cases "tables config asset") auto
  with c obtain ss where "tables stored_config asset = Some ss" "set ts = set ss"
    by (cases "tables stored_config asset") auto
  with ts show ?thesis
    by (simp add: update_asset_def all_tables_def difference_empty)
qed

lemma for_each_skip:
  "(\<And>x. x \<in> set xs \<Longrightarrow> body x w = (None, w)) \<Longrightarrow> for_each body xs w = (None, w)"
  by (induction xs) simp_all

lemma converged_add_phase:
  "converged config stored_config \<Longrightarrow>
   add_timeseries_asset_classes py schema config stored_config w = (None, w)"
  by (simp add: add_timeseries_asset_classes_def converged_additions)

lemma converged_del_phase:
  "converged config stored_config \<Longrightarrow>
   del_timeseries_asset_classes py schema config stored_config w = (None, w)"
  by (simp add: del_timeseries_asset_classes_def converged_removals)

lemma converged_update_phase:
  assumes "converged config stored_config"
  shows "update_timeseries_asset_classes py schema config stored_config w = (None, w)"
proof -
  have "for_each (update_asset py schema config stored_config)
      (iterate (str_rank py) (asset_updates config stored_config)) w = (None, w)"
    by (rule for_each_skip) (simp add: asset_updates_def converged_update_asset [OF assms])
  then show ?thesis by (simp add: update_timeseries_asset_classes_def Let_def)
qed

lemma settled_configure_optional:
  assumes "settled self db schema config"
  shows "configure_optional py self db schema config
      \<lparr>executed = ex, commits = n, answers = lines\<rparr> =
    (None, \<lparr>executed = ex @ (case config of None \<Rightarrow> []
                | Some c \<Rightarrow> [Stmt SELECT Generic_SCHEMA_TABLES [ASchema schema]]),
            commits = (case config of None \<Rightarrow> n | Some c \<Rightarrow> n + 3), answers = lines\<rparr>)"
proof (cases config)
  case None
  then show ?thesis by (simp add: configure_optional_def)
next
  case (Some c)
  with assms obtain st where st: "table_config self schema = Some st" "converged c st"
    "ORIGIN self \<in> set (schema_tables db schema)"
    by (auto simp: settled_def split: option.splits)
  show ?thesis
    using st Some
    by (simp add: configure_optional_def configure_schema_def execute_def commit_def and_then_def
        converged_add_phase converged_update_phase converged_del_phase)
qed



lemma example_engine [simp]:
  "table_config (engine_with stored) schema = Some stored"
  "ORIGIN (engine_with stored) = ''_origin''"
  "set (all_schemas (engine_with stored)) \<subseteq> set (schemas (catalogue_with names))"
  "schema_tables (catalogue_with names) schema = names"
  by (simp_all add: engine_with_def catalogue_with_def)


section \<open>Metadata gaps\<close>

lemma missing_metadata_tables_cases:
  "missing_metadata_tables py self db pkey asset schema =
     (if configured self schema asset
      then Inr (map (\<lambda>tbl. \<lparr>md_table_name = table_name tbl, schema_name = schema,
                        start_date = sentinel, end_date = sentinel, table = tbl\<rparr>)
                 (iterate (table_rank py)
                    (difference (required_tables self schema asset)
                       (stored_tables db pkey schema))))
      else Inl (KeyError (case table_config self schema of None \<Rightarrow> ASchema schema
                     | Some c \<Rightarrow> AStr asset)))"
  by (auto simp add: missing_metadata_tables_def configured_def required_tables_def
      stored_tables_def raw_tables_def split: option.splits)

lemma of_schema_append [simp]: "of_schema s (xs @ ys) = of_schema s xs @ of_schema s ys"
  by (simp add: of_schema_def)

lemma of_schema_Nil [simp]: "of_schema s [] = []"
  by (simp add: of_schema_def)

lemma of_schema_entries [simp]:
  "of_schema s (map (\<lambda>tbl. \<lparr>md_table_name = table_name tbl, schema_name = schema,
                        start_date = sentinel, end_date = sentinel, table = tbl\<rparr>) tbls)
   = (if s = schema then map (\<lambda>tbl. \<lparr>md_table_name = table_name tbl, schema_name = schema,
                        start_date = sentinel, end_date = sentinel, table = tbl\<rparr>) tbls else [])"
  by (induction tbls) (auto simp: of_schema_def)

lemma reraise_Inr: "reraise r = Inr v \<longleftrightarrow> r = Inr v"
  by (auto simp: reraise_def split: sum.splits exn.splits)

text \<open>
  C6. When \<open>get_symbol_series_updates\<close> returns for a symbol, then for every schema the
  entries of that schema in the result stand for pairwise different tables, and these
  tables are, when the symbol's flag for the schema is set, the raw tables configured for
  the asset class without the tables that have stored metadata, and none otherwise; every
  entry has the sentinel \<open>1800-01-01\<close> as its start and as its end and the name of its
  table.
\<close>

theorem missing_tables_get_sentinel_entries:
  assumes sel: "select_symbol db pkey = rsp # rest"
    and run: "get_symbol_series_updates py self db pkey = Inr ms"
  shows "distinct (map table (of_schema schema ms))
    \<and> set (map table (of_schema schema ms)) =
        (if enabled rsp schema
         then set (required_tables self schema (asset_class rsp)) - set (stored_tables db pkey schema)
         else {})
    \<and> (\<forall>m \<in> set ms. start_date m = sentinel \<and> end_date m = sentinel
          \<and> md_table_name m = table_name (table m))"
  using run
  by (cases schema)
     (auto simp add: get_symbol_series_updates_def sel reraise_Inr when_stored_def
        missing_metadata_tables_cases enabled_def comp_def image_image
        split: if_splits sum.splits)


lemma example_ingestion [simp]:
  "select_symbol (ingestion_with row stored) 7 = [row]"
  "select_symbol (ingestion_with row stored) 8 = []"
  by (simp_all add: ingestion_with_def)

lemma minute_symbol_updates:
  "get_symbol_series_updates backwards (engine_with (crypto_config [raw_1m, raw_5m, agg_1h] raw_1m))
       (ingestion_with minute_symbol [stored_1m]) 7
     = Inr [\<lparr>md_table_name = ''crypto_300_raw'', schema_name = MINUTE_DATA,
             start_date = Timestamp ''1800-01-01'', end_date = Timestamp ''1800-01-01'',
             table = raw_5m\<rparr>]"
  by (simp add: get_symbol_series_updates_def when_stored_def missing_metadata_tables_def
      reraise_def ingestion_with_def minute_symbol_def stored_1m_def crypto_config_def
      raw_tables_def difference_def sentinel_def raw_1m_def raw_5m_def agg_1h_def)

text \<open>
  The spec's example: a symbol stored by the minute, raw tables of one and five minutes
  configured, rows for the table of one minute only.
\<close>

theorem missing_tables_get_sentinel_entries_witness:
  "get_symbol_series_updates backwards (engine_with (crypto_config [raw_1m, raw_5m, agg_1h] raw_1m))
       (ingestion_with minute_symbol [stored_1m]) 7
     = Inr [\<lparr>md_table_name = ''crypto_300_raw'', schema_name = MINUTE_DATA,
             start_date = Timestamp ''1800-01-01'', end_date = Timestamp ''1800-01-01'',
             table = raw_5m\<rparr>]
   \<and> set (map table (of_schema MINUTE_DATA
         [\<lparr>md_table_name = ''crypto_300_raw'', schema_name = MINUTE_DATA,
           start_date = Timestamp ''1800-01-01'', end_date = Timestamp ''1800-01-01'',
           table = raw_5m\<rparr>]))
     = set (required_tables (engine_with (crypto_config [raw_1m, raw_5m, agg_1h] raw_1m))
              MINUTE_DATA ''crypto'')
       - set (stored_tables (ingestion_with minute_symbol [stored_1m]) 7 MINUTE_DATA)
   \<and> set (map table (of_schema TICK_DATA
         [\<lparr>md_table_name = ''crypto_300_raw'', schema_name = MINUTE_DATA,
           start_date = Timestamp ''1800-01-01'', end_date = Timestamp ''1800-01-01'',
           table = raw_5m\<rparr>])) = {}"
proof -
  have e: "enabled minute_symbol MINUTE_DATA" "\<not> enabled minute_symbol TICK_DATA"
    by (simp_all add: enabled_def minute_symbol_def)
  note m = missing_tables_get_sentinel_entries [OF example_ingestion(1) minute_symbol_updates,
      of MINUTE_DATA]
  note t = missing_tables_get_sentinel_entries [OF example_ingestion(1) minute_symbol_updates,
      of TICK_DATA]
  from m have m': "set (map table (of_schema MINUTE_DATA
         [\<lparr>md_table_name = ''crypto_300_raw'', schema_name = MINUTE_DATA,
           start_date = Timestamp ''1800-01-01'', end_date = Timestamp ''1800-01-01'',
           table = raw_5m\<rparr>]))
     = set (required_tables (engine_with (crypto_config [raw_1m, raw_5m, agg_1h] raw_1m))
              MINUTE_DATA (asset_class minute_symbol))
       - set (stored_tables (ingestion_with minute_symbol [stored_1m]) 7 MINUTE_DATA)"
    by (simp only: e if_True)
  have a: "asset_class minute_symbol = ''crypto''" by (simp add: minute_symbol_def)
  from t have t': "set (map table (of_schema TICK_DATA
         [\<lparr>md_table_name = ''crypto_300_raw'', schema_name = MINUTE_DATA,
           start_date = Timestamp ''1800-01-01'', end_date = Timestamp ''1800-01-01'',
           table = raw_5m\<rparr>])) = {}"
    by (simp only: e if_False)
  show ?thesis using minute_symbol_updates m' [unfolded a] t' by blast
qed

lemma reraise_KeyError [simp]:
  "reraise (Inl (KeyError k)) = Inl (KeyError (AStr
     ''Ensure configure_timeseries_schema has been run prior to inserting symbol data.''))"
  by (simp add: reraise_def)

lemma reraise_Inr_simp [simp]: "reraise (Inr v) = Inr v"
  by (simp add: reraise_def)


lemma str_int_8: "str_int 8 = ''8''"
  by code_simp

lemma zero_missing:
  "get_symbol_series_updates backwards (engine_with (crypto_config [raw_1m, agg_5m] raw_1m))
       (ingestion_with minute_symbol [stored_1m]) 7 = Inr []"
  by (simp add: get_symbol_series_updates_def when_stored_def missing_metadata_tables_def
      reraise_def ingestion_with_def minute_symbol_def stored_1m_def crypto_config_def
      raw_tables_def difference_def sentinel_def raw_1m_def agg_5m_def)


section \<open>Validation, mutation and classification of the merge\<close>

lemma difference_Nil_iff: "difference a b = [] \<longleftrightarrow> set a \<subseteq> set b"
  by (auto simp: difference_def filter_empty_conv)

lemma lower_string_labels:
  "columns_str_lower py (Index (map LStr names))
     = Inr (Index (map (\<lambda>n. LStr (lower py n)) names))"
  by (cases names) (simp_all add: columns_str_lower_def is_str_def comp_def)

text \<open>
  What holds of C5: an empty source, a source that is no string, a symbols argument that
  is no frame, and a frame on which the lowering of the labels returns and which then
  lacks a required column make the call return two empty series without a statement.
\<close>

lemma rejected_input_returns_empty:
  assumes "(\<forall>src. source = PyStr src \<longrightarrow> src = [])
     \<or> (\<forall>a. symbols \<noteq> PyDataFrame a)
     \<or> (\<exists>a lowered. symbols = PyDataFrame a
           \<and> columns_str_lower py (columns (frames h a)) = Inr lowered
           \<and> \<not> set (map LStr req_cols) \<subseteq> set (labels lowered))"
  shows "fst (upsert_securities py fetchall h symbols source on_conflict) = Inr ([], [])
    \<and> snd (snd (upsert_securities py fetchall h symbols source on_conflict)) = []"
  using assms
  by (cases source; cases symbols)
     (auto simp add: upsert_securities_def Let_def difference_Nil_iff image_subset_iff)

text \<open>
  C5 fails on the code. The frame \<open>pandas.DataFrame([["BTC", "Bitcoin"]])\<close> is a
  \<open>DataFrame\<close> that lacks every required column, and the source is a non-empty string;
  the call raises \<open>AttributeError\<close> at line 117, before the check of the required
  columns, where the claim has it return two empty series. No statement is executed and
  the frame is as before.
\<close>

theorem frame_without_column_names_raises:
  "upsert_securities py fetchall (store_with unnamed) (PyDataFrame 0) (PyStr ''alpaca'')
       on_conflict
     = (Inl AttributeError, store_with unnamed, [])"
  by (simp add: upsert_securities_def store_with_def unnamed_def columns_str_lower_def)


text \<open>
  C4. For a call that passes validation and whose merge returns at least one row: under
  \<open>ignore\<close> the inserted series holds every returned row and the updated series is empty;
  under \<open>update\<close> the inserted series holds the rows whose conflict marker is \<open>0\<close> and
  the updated series the other rows. For the merge of a batch of one new key and one
  existing key this gives one inserted and one updated identifier under insert-or-update,
  and one inserted and no updated identifier under insert-or-ignore.
\<close>

theorem merged_rows_classified:
  assumes "source = PyStr src" and "src \<noteq> []" and "symbols = PyDataFrame a"
    and "columns_str_lower py (columns (frames h a)) = Inr lowered"
    and "set (map LStr req_cols) \<subseteq> set (labels lowered)"
    and "upsert_securities py fetchall h symbols source on_conflict
           = (Inr (inserted, updated), h', stmts)"
    and "fetchall stmts \<noteq> []"
    and "map_of symbols_table (s1, e1, src) = None"
    and "map_of symbols_table (s2, e2, src) = Some pkey"
    and "xid \<noteq> ''0''"
  shows "(on_conflict = ''ignore'' \<longrightarrow> inserted = map fst (fetchall stmts) \<and> updated = [])
    \<and> (on_conflict = ''update'' \<longrightarrow>
         inserted = map fst (filter (\<lambda>r. snd r = ''0'') (fetchall stmts))
         \<and> updated = map fst (filter (\<lambda>r. snd r \<noteq> ''0'') (fetchall stmts)))
    \<and> classify UPSERT (merge_staged UPSERT xid src symbols_table next_pkey [(s1, e1), (s2, e2)])
         = ([next_pkey], [pkey])
    \<and> classify INSERT (merge_staged INSERT xid src symbols_table next_pkey [(s1, e1), (s2, e2)])
         = ([next_pkey], [])"
proof -
  have ne: "(s2, e2, src) \<noteq> (s1, e1, src)" using assms(8,9) by auto
  have m: "classify UPSERT (merge_staged UPSERT xid src symbols_table next_pkey [(s1, e1), (s2, e2)])
         = ([next_pkey], [pkey])"
    "classify INSERT (merge_staged INSERT xid src symbols_table next_pkey [(s1, e1), (s2, e2)])
         = ([next_pkey], [])"
    using assms(8,9,10) ne by (auto simp add: classify_def)
  have c: "(inserted, updated)
      = classify (if on_conflict = ''update'' then UPSERT else INSERT) (fetchall stmts)"
    using assms(1-6)
    by (auto simp add: upsert_securities_def Let_def alloc_def difference_Nil_iff
        image_subset_iff split: prod.splits if_splits)
  show ?thesis using c m assms(7) by (auto simp add: classify_def)
qed

section \<open>Examples of the merge\<close>

lemma lower_names:
  "ascii_lower ''Symbol'' = ''symbol''"
  "ascii_lower ''Name'' = ''name''"
  "ascii_lower ''Exchange'' = ''exchange''"
  "ascii_lower ''Asset_Class'' = ''asset_class''"
  "ascii_lower ''Sector'' = ''sector''"
  by code_simp+

lemma listing_columns:
  "columns listing = Index (map LStr [''Symbol'', ''Name'', ''Exchange'', ''Asset_Class'', ''Sector''])"
  "columns incomplete = Index (map LStr [''Symbol'', ''Name''])"
  by (simp_all add: listing_def incomplete_def)

lemma lower_listing:
  "columns_str_lower forwards (columns listing)
     = Inr (Index [LStr ''symbol'', LStr ''name'', LStr ''exchange'', LStr ''asset_class'',
                   LStr ''sector''])"
  unfolding listing_columns lower_string_labels by (simp add: forwards_def lower_names)

lemma lower_incomplete:
  "columns_str_lower forwards (columns incomplete) = Inr (Index [LStr ''symbol'', LStr ''name''])"
  unfolding listing_columns lower_string_labels by (simp add: forwards_def lower_names)

lemma iterate_req_cols: "iterate (str_rank forwards) req_cols = req_cols"
  by (simp add: iterate_def forwards_def place_def req_cols_def)

lemma listing_statements:
  "snd (snd (upsert_securities forwards fetchall (store_with listing) (PyDataFrame 0)
       (PyStr ''alpaca'') on_conflict))
   = [Stmt CREATE AssetTbls_SYMBOLS_BUFFER [],
      Stmt COPY AssetTbls_SYMBOLS_BUFFER
        [ANames [''symbol'', ''name'', ''exchange'', ''asset_class'', ''attrs''],
         ARows [[''BTC'', ''Bitcoin'', ''CBSE'', ''crypto'', ''sector:coin;''],
                [''ETH'', ''Ether'', ''CBSE'', ''crypto'', ''sector:coin;'']]],
      Stmt (if on_conflict = ''update'' then UPSERT else INSERT) AssetTbls_SYMBOLS_BUFFER
        [AStr ''alpaca'']]"
  by (simp add: upsert_securities_def store_with_def lower_listing Let_def alloc_def
      iterate_req_cols difference_def select_columns_def attrs_column_def set_column_def
      labels_def label_str_def)
     (simp add: listing_def req_cols_def forwards_def json_def label_str_def)

lemma symbols_with_eth_merge:
  "symbols_with_eth
     [Stmt CREATE AssetTbls_SYMBOLS_BUFFER [],
      Stmt COPY AssetTbls_SYMBOLS_BUFFER
        [ANames [''symbol'', ''name'', ''exchange'', ''asset_class'', ''attrs''],
         ARows [[''BTC'', ''Bitcoin'', ''CBSE'', ''crypto'', ''sector:coin;''],
                [''ETH'', ''Ether'', ''CBSE'', ''crypto'', ''sector:coin;'']]],
      Stmt op AssetTbls_SYMBOLS_BUFFER [AStr ''alpaca'']]
   = (5, ''0'') # (if op = UPSERT then [(4, ''731'')] else [])"
  by (simp add: symbols_with_eth_def symbols_database_def staged_keys_def cell_def)



text \<open>
  The spec's example, through the whole call: \<open>BTC\<close> is new and gets the key 5, \<open>ETH\<close>
  exists under the key 4.
\<close>

theorem merged_rows_classified_witness:
  "fst (upsert_securities forwards symbols_with_eth (store_with listing) (PyDataFrame 0)
       (PyStr ''alpaca'') ''update'') = Inr ([5], [4])
   \<and> fst (upsert_securities forwards symbols_with_eth (store_with listing) (PyDataFrame 0)
       (PyStr ''alpaca'') ''ignore'') = Inr ([5], [])
   \<and> classify UPSERT (merge_staged UPSERT ''731'' ''alpaca'' [((''ETH'', ''CBSE'', ''alpaca''), 4)] 5
         [(''BTC'', ''CBSE''), (''ETH'', ''CBSE'')]) = ([5], [4])
   \<and> classify INSERT (merge_staged INSERT ''731'' ''alpaca'' [((''ETH'', ''CBSE'', ''alpaca''), 4)] 5
         [(''BTC'', ''CBSE''), (''ETH'', ''CBSE'')]) = ([5], [])"
proof -
  let ?run = "\<lambda>on_conflict. upsert_securities forwards symbols_with_eth (store_with listing)
      (PyDataFrame 0) (PyStr ''alpaca'') on_conflict"
  have s: "PyStr ''alpaca'' = PyStr ''alpaca''" "''alpaca'' \<noteq> []"
    "PyDataFrame 0 = PyDataFrame 0" by simp_all
  have f: "frames (store_with listing) 0 = listing" by (simp add: store_with_def)
  have l: "columns_str_lower forwards (columns (frames (store_with listing) 0))
      = Inr (Index [LStr ''symbol'', LStr ''name'', LStr ''exchange'', LStr ''asset_class'',
                    LStr ''sector''])"
    by (simp add: f lower_listing)
  have r: "set (map LStr req_cols)
      \<subseteq> set (labels (Index [LStr ''symbol'', LStr ''name'', LStr ''exchange'',
                            LStr ''asset_class'', LStr ''sector'']))"
    by (simp add: labels_def req_cols_def)
  obtain series where ok: "fst (?run c) = Inr (series c)" for c
  proof -
    have "\<exists>x. fst (?run c) = Inr x" for c
      by (simp add: upsert_securities_def l Let_def alloc_def difference_Nil_iff r
          split: prod.splits)
    then show ?thesis using that by metis
  qed
  have p: "?run c = (Inr (fst (series c), snd (series c)), fst (snd (?run c)), snd (snd (?run c)))"
    for c using ok [of c] by (simp add: prod_eq_iff)
  have n: "symbols_with_eth (snd (snd (?run c))) \<noteq> []" for c
    by (simp add: listing_statements symbols_with_eth_merge)
  have k: "map_of [((''ETH'', ''CBSE'', ''alpaca''), 4 :: int)] (''BTC'', ''CBSE'', ''alpaca'') = None"
    "map_of [((''ETH'', ''CBSE'', ''alpaca''), 4 :: int)] (''ETH'', ''CBSE'', ''alpaca'') = Some 4"
    "''731'' \<noteq> ''0''" by simp_all
  note u = merged_rows_classified [OF s l r p n k, of "''update''" 5]
  note i = merged_rows_classified [OF s l r p n k, of "''ignore''" 5]
  have "series ''update'' = ([5], [4])"
    using u by (simp add: listing_statements symbols_with_eth_merge prod_eq_iff)
  moreover have "series ''ignore'' = ([5], [])"
    using i by (simp add: listing_statements symbols_with_eth_merge prod_eq_iff)
  ultimately show ?thesis using u ok by simp
qed

end
